theory Spec2Isabelle
  imports Complex_Main
begin

section \<open>Numbers, errors and arrays\<close>

text \<open>
  The pipeline computes with Python floats and NumPy \<open>float64\<close> arrays. Finite floats are
  modelled as real numbers: rounding, overflow and the sign of zero are not represented.
  What NumPy produces from finite operands without raising (\<open>nan\<close>, \<open>inf\<close>, \<open>-inf\<close> on a
  division by zero or an invalid power) is represented by the three extra values of
  \<open>npfloat\<close>. Python's own float division raises instead; exceptions are values of
  \<open>py_error\<close> on the left of a sum. \<open>ComplexResult\<close> is no exception: it marks the one
  place where Python leaves the real numbers (a negative float to a non-integer power),
  beyond which the model does not follow it.
\<close>

datatype py_error = ValueError | TypeError | IndexError | ZeroDivisionError | ComplexResult

datatype pynum = PyInt int | PyFloat real

fun num_val :: "pynum \<Rightarrow> real" where
  "num_val (PyInt k) = of_int k"
| "num_val (PyFloat x) = x"

text \<open>The values a patient-parameter dictionary is given: \<open>None\<close>, booleans, numbers and
  strings.\<close>

datatype pyval = PyNone | PyBool bool | PyNumber pynum | PyStr string

datatype npfloat = Fin real | PInf | NInf | NaN

fun np_neg :: "npfloat \<Rightarrow> npfloat" where
  "np_neg (Fin x) = Fin (- x)"
| "np_neg PInf = NInf"
| "np_neg NInf = PInf"
| "np_neg NaN = NaN"

fun np_add :: "npfloat \<Rightarrow> npfloat \<Rightarrow> npfloat" where
  "np_add (Fin x) (Fin y) = Fin (x + y)"
| "np_add (Fin x) PInf = PInf"
| "np_add (Fin x) NInf = NInf"
| "np_add PInf (Fin y) = PInf"
| "np_add PInf PInf = PInf"
| "np_add PInf NInf = NaN"
| "np_add NInf (Fin y) = NInf"
| "np_add NInf NInf = NInf"
| "np_add NInf PInf = NaN"
| "np_add NaN b = NaN"
| "np_add a NaN = NaN"

definition np_sub :: "npfloat \<Rightarrow> npfloat \<Rightarrow> npfloat" where
  "np_sub a b = np_add a (np_neg b)"

fun np_mul :: "npfloat \<Rightarrow> npfloat \<Rightarrow> npfloat" where
  "np_mul (Fin x) (Fin y) = Fin (x * y)"
| "np_mul (Fin x) PInf = (if x = 0 then NaN else if 0 < x then PInf else NInf)"
| "np_mul (Fin x) NInf = (if x = 0 then NaN else if 0 < x then NInf else PInf)"
| "np_mul PInf (Fin y) = (if y = 0 then NaN else if 0 < y then PInf else NInf)"
| "np_mul NInf (Fin y) = (if y = 0 then NaN else if 0 < y then NInf else PInf)"
| "np_mul PInf PInf = PInf"
| "np_mul PInf NInf = NInf"
| "np_mul NInf PInf = NInf"
| "np_mul NInf NInf = PInf"
| "np_mul NaN b = NaN"
| "np_mul a NaN = NaN"

fun np_div :: "npfloat \<Rightarrow> npfloat \<Rightarrow> npfloat" where
  "np_div (Fin x) (Fin y) =
     (if y = 0 then (if x = 0 then NaN else if 0 < x then PInf else NInf) else Fin (x / y))"
| "np_div (Fin x) PInf = Fin 0"
| "np_div (Fin x) NInf = Fin 0"
| "np_div PInf (Fin y) = (if 0 \<le> y then PInf else NInf)"
| "np_div NInf (Fin y) = (if 0 \<le> y then NInf else PInf)"
| "np_div PInf PInf = NaN"
| "np_div PInf NInf = NaN"
| "np_div NInf PInf = NaN"
| "np_div NInf NInf = NaN"
| "np_div NaN b = NaN"
| "np_div a NaN = NaN"

fun np_lt :: "npfloat \<Rightarrow> npfloat \<Rightarrow> bool" where
  "np_lt (Fin x) (Fin y) = (x < y)"
| "np_lt (Fin x) PInf = True"
| "np_lt NInf (Fin y) = True"
| "np_lt NInf PInf = True"
| "np_lt a b = False"

fun np_le :: "npfloat \<Rightarrow> npfloat \<Rightarrow> bool" where
  "np_le (Fin x) (Fin y) = (x \<le> y)"
| "np_le (Fin x) PInf = True"
| "np_le NInf (Fin y) = True"
| "np_le NInf PInf = True"
| "np_le PInf PInf = True"
| "np_le NInf NInf = True"
| "np_le a b = False"

text \<open>\<open>np.maximum\<close> and \<open>np.minimum\<close> propagate \<open>nan\<close>.\<close>

fun np_maximum :: "npfloat \<Rightarrow> npfloat \<Rightarrow> npfloat" where
  "np_maximum NaN b = NaN"
| "np_maximum a NaN = NaN"
| "np_maximum a b = (if np_lt a b then b else a)"

fun np_minimum :: "npfloat \<Rightarrow> npfloat \<Rightarrow> npfloat" where
  "np_minimum NaN b = NaN"
| "np_minimum a NaN = NaN"
| "np_minimum a b = (if np_lt b a then b else a)"

text \<open>\<open>np.max\<close>, \<open>np.min\<close> and \<open>.sum()\<close> of a one-dimensional array; the first two raise
  \<open>ValueError\<close> on an empty array.\<close>

fun np_max :: "npfloat list \<Rightarrow> py_error + npfloat" where
  "np_max [] = Inl ValueError"
| "np_max (x # xs) = Inr (foldl np_maximum x xs)"

fun np_min :: "npfloat list \<Rightarrow> py_error + npfloat" where
  "np_min [] = Inl ValueError"
| "np_min (x # xs) = Inr (foldl np_minimum x xs)"

definition np_sum :: "npfloat list \<Rightarrow> npfloat" where
  "np_sum xs = foldl np_add (Fin 0) xs"

text \<open>\<open>a[-1]\<close>: the last element, \<open>IndexError\<close> on an empty array.\<close>

definition last_item :: "'a list \<Rightarrow> py_error + 'a" where
  "last_item xs = (if xs = [] then Inl IndexError else Inr (last xs))"

text \<open>An elementwise binary operation on two one-dimensional arrays, with NumPy's
  broadcasting rule: equal lengths, or one operand of length one; otherwise \<open>ValueError\<close>.\<close>

definition np_broadcast ::
  "('a \<Rightarrow> 'b \<Rightarrow> 'c) \<Rightarrow> 'a list \<Rightarrow> 'b list \<Rightarrow> py_error + 'c list" where
  "np_broadcast f xs ys =
     (if length xs = length ys then Inr (map2 f xs ys)
      else if length xs = 1 then Inr (map (f (hd xs)) ys)
      else if length ys = 1 then Inr (map (\<lambda>x. f x (hd ys)) xs)
      else Inl ValueError)"

text \<open>\<open>np.linspace(start, stop, num)\<close> for \<open>num \<ge> 2\<close>: \<open>start + i * step\<close> with
  \<open>step = (stop - start) / (num - 1)\<close>.\<close>

definition np_linspace :: "real \<Rightarrow> real \<Rightarrow> nat \<Rightarrow> real list" where
  "np_linspace start stop num =
     map (\<lambda>i. start + real i * ((stop - start) / real (num - 1))) [0..<num]"

text \<open>\<open>np.argmin\<close> of a non-empty array: the first index of a minimal element.\<close>

fun argmin_from :: "real list \<Rightarrow> nat \<Rightarrow> real \<Rightarrow> nat \<Rightarrow> nat" where
  "argmin_from [] i best bi = bi"
| "argmin_from (x # xs) i best bi =
     (if x < best then argmin_from xs (i + 1) x i else argmin_from xs (i + 1) best bi)"

fun np_argmin :: "real list \<Rightarrow> py_error + nat" where
  "np_argmin [] = Inl ValueError"
| "np_argmin (x # xs) = Inr (argmin_from xs 1 x 0)"

text \<open>Running a list of fallible computations in order; the first exception wins.\<close>

fun sequence_err :: "('e + 'a) list \<Rightarrow> 'e + 'a list" where
  "sequence_err [] = Inr []"
| "sequence_err (r # rs) =
     (case r of
        Inl e \<Rightarrow> Inl e
      | Inr v \<Rightarrow> (case sequence_err rs of Inl e \<Rightarrow> Inl e | Inr vs \<Rightarrow> Inr (v # vs)))"

text \<open>Python's float division \<open>a / b\<close> on two Python floats raises on a zero divisor.\<close>

definition py_truediv :: "real \<Rightarrow> real \<Rightarrow> py_error + real" where
  "py_truediv a b = (if b = 0 then Inl ZeroDivisionError else Inr (a / b))"

text \<open>\<open>str.lower()\<close>. A Python string is modelled by its UTF-8 bytes; only the ASCII
  capitals are mapped. Every registry key below is lower-case ASCII without \<open>k\<close> or \<open>i\<close>, and
  no non-ASCII character lower-cases to one of their letters, so the registry look-ups decide
  as Python's do.\<close>

definition lower_char :: "char \<Rightarrow> char" where
  "lower_char c =
     (if 65 \<le> (of_char c :: nat) \<and> (of_char c :: nat) \<le> 90
      then char_of ((of_char c :: nat) + 32) else c)"

definition py_lower :: "string \<Rightarrow> string" where
  "py_lower s = map lower_char s"


section \<open>Pharmacokinetic engine (\<open>pk_model.py\<close>)\<close>

record drug_params =
  p_ka :: real
  p_ke :: real
  p_Vd :: real
  p_F :: real

definition DRUG_PARAMS :: "string \<rightharpoonup> drug_params" where
  "DRUG_PARAMS =
     [''metoprolol'' \<mapsto> \<lparr>p_ka = 1.5, p_ke = 0.20, p_Vd = 5.5, p_F = 0.50\<rparr>,
      ''atenolol'' \<mapsto> \<lparr>p_ka = 1.0, p_ke = 0.12, p_Vd = 1.2, p_F = 0.60\<rparr>]"

record PKModel =
  drug_name :: string
  dose :: real
  pk_weight :: real
  tau :: pynum
  n_days :: int
  ka :: real
  ke :: real
  Vd :: real
  F :: real

text \<open>\<open>PKModel.__init__\<close>: the name is lower-cased, then looked up; an unknown name raises
  \<open>ValueError\<close> before any attribute beyond the arguments is set.\<close>

definition PKModel_init ::
  "string \<Rightarrow> real \<Rightarrow> real \<Rightarrow> pynum \<Rightarrow> int \<Rightarrow> py_error + PKModel" where
  "PKModel_init name dose_mg patient_weight tau_hours days =
     (let dn = py_lower name in
      case DRUG_PARAMS dn of
        None \<Rightarrow> Inl ValueError
      | Some p \<Rightarrow>
          Inr \<lparr>drug_name = dn, dose = dose_mg, pk_weight = patient_weight, tau = tau_hours,
               n_days = days, ka = p_ka p, ke = p_ke p, Vd = p_Vd p * patient_weight,
               F = p_F p\<rparr>)"

text \<open>\<open>C_single\<close>: the Bateman curve of one dose, in ng/mL. The quotient of the two Python
  floats is taken first and raises when \<open>Vd * (ka - ke)\<close> is zero.\<close>

definition C_single :: "PKModel \<Rightarrow> real \<Rightarrow> py_error + real" where
  "C_single m t =
     (if t < 0 then Inr 0
      else case py_truediv (F m * dose m * ka m) (Vd m * (ka m - ke m)) of
             Inl e \<Rightarrow> Inl e
           | Inr q \<Rightarrow> Inr (q * (exp (- ke m * t) - exp (- ka m * t)) * 1000))"

text \<open>\<open>C_multiple\<close>: the loop \<open>for i in range(n_doses)\<close> with its accumulator.\<close>

function C_multiple_loop ::
  "PKModel \<Rightarrow> real \<Rightarrow> int \<Rightarrow> int \<Rightarrow> real \<Rightarrow> py_error + real" where
  "C_multiple_loop m t n_doses i tot =
     (if i < n_doses then
        (let dose_time = of_int i * num_val (tau m) in
         if t \<ge> dose_time then
           (case C_single m (t - dose_time) of
              Inl e \<Rightarrow> Inl e
            | Inr c \<Rightarrow> C_multiple_loop m t n_doses (i + 1) (tot + c))
         else C_multiple_loop m t n_doses (i + 1) tot)
      else Inr tot)"
  by pat_completeness auto
termination
  by (relation "measure (\<lambda>(m, t, n, i, tot). nat (n - i))") auto

declare C_multiple_loop.simps [simp del]

definition C_multiple :: "PKModel \<Rightarrow> real \<Rightarrow> int \<Rightarrow> py_error + real" where
  "C_multiple m t n_doses = C_multiple_loop m t n_doses 0 0"

text \<open>The dose indices of the superposition law: \<open>i\<close> in \<open>[i0, n_doses)\<close> with
  \<open>i * tau \<le> t\<close>.\<close>

definition administered :: "PKModel \<Rightarrow> real \<Rightarrow> int \<Rightarrow> int \<Rightarrow> int set" where
  "administered m t n_doses i0 =
     {i. i0 \<le> i \<and> i < n_doses \<and> of_int i * num_val (tau m) \<le> t}"



text \<open>\<open>scipy.integrate.trapezoid(y, x)\<close> for two arrays of equal length:
  \<open>sum(diff(x) * (y[1:] + y[:-1]) / 2)\<close>.\<close>

definition np_diff :: "real list \<Rightarrow> real list" where
  "np_diff x = map2 (\<lambda>a b. b - a) (butlast x) (tl x)"

definition trapezoid :: "npfloat list \<Rightarrow> real list \<Rightarrow> npfloat" where
  "trapezoid y x =
     np_sum (map2 (\<lambda>d s. np_div (np_mul (Fin d) s) (Fin 2))
                  (np_diff x) (map2 np_add (tl y) (butlast y)))"

record DrugConcentration =
  dc_drug_name :: string
  dose_mg :: real
  route :: string
  time_hours :: "real list"
  concentration_mg_L :: "real list"
  absorption_rate :: real
  elimination_rate :: real
  volume_distribution :: real
  bioavailability :: real
  Cmax_ss :: npfloat
  Cmin_ss :: npfloat
  Cavg_ss :: npfloat
  AUC_ss :: npfloat
  accumulation_factor :: npfloat
  fluctuation_percent :: npfloat

text \<open>\<open>24 // self.tau\<close> and \<open>self.n_days * (24 // self.tau)\<close>: an int for an int interval,
  a float for a float interval; \<open>range(n_doses)\<close> accepts only the int.\<close>

fun floordiv_24 :: "pynum \<Rightarrow> py_error + pynum" where
  "floordiv_24 (PyInt k) = (if k = 0 then Inl ZeroDivisionError else Inr (PyInt (24 div k)))"
| "floordiv_24 (PyFloat x) =
     (if x = 0 then Inl ZeroDivisionError else Inr (PyFloat (of_int \<lfloor>24 / x\<rfloor>)))"

fun int_times :: "int \<Rightarrow> pynum \<Rightarrow> pynum" where
  "int_times d (PyInt k) = PyInt (d * k)"
| "int_times d (PyFloat x) = PyFloat (of_int d * x)"

fun C_multiple_range :: "PKModel \<Rightarrow> real \<Rightarrow> pynum \<Rightarrow> py_error + real" where
  "C_multiple_range m t (PyInt k) = C_multiple m t k"
| "C_multiple_range m t (PyFloat x) = Inl TypeError"

text \<open>The steady-state profile over one interval: the loop over \<open>t_interval\<close>.\<close>

definition C_ss_sample :: "PKModel \<Rightarrow> real \<Rightarrow> py_error + npfloat" where
  "C_ss_sample m tt =
     (let num_elim = np_div (Fin (exp (- ke m * tt))) (Fin (1 - exp (- ke m * num_val (tau m))));
          num_abs = np_div (Fin (exp (- ka m * tt))) (Fin (1 - exp (- ka m * num_val (tau m))))
      in case py_truediv (F m * dose m * ka m * 1000) (Vd m * (ka m - ke m)) of
           Inl e \<Rightarrow> Inl e
         | Inr q \<Rightarrow> Inr (np_mul (Fin q) (np_sub num_elim num_abs)))"

definition t_interval :: "PKModel \<Rightarrow> real list" where
  "t_interval m = np_linspace 0 (num_val (tau m)) 500"

definition C_ss_interval :: "PKModel \<Rightarrow> py_error + npfloat list" where
  "C_ss_interval m = sequence_err (map (C_ss_sample m) (t_interval m))"

text \<open>\<open>PKModel.simulate\<close>. Reading the baseline file, writing the result file and the
  printed summary are left out; \<open>duration_hours\<close> is \<open>None\<close> or a number.\<close>

definition simulate :: "PKModel \<Rightarrow> real option \<Rightarrow> py_error + DrugConcentration" where
  "simulate m duration_hours =
     (case floordiv_24 (tau m) of
        Inl e \<Rightarrow> Inl e
      | Inr q \<Rightarrow>
     (let n_doses = int_times (n_days m) q;
          total_time = (case duration_hours of None \<Rightarrow> of_int (n_days m * 24) | Some d \<Rightarrow> d);
          t = np_linspace 0 total_time 5000
      in case sequence_err (map (\<lambda>tt. C_multiple_range m tt n_doses) t) of
        Inl e \<Rightarrow> Inl e
      | Inr concentration_total \<Rightarrow>
     (case C_ss_interval m of
        Inl e \<Rightarrow> Inl e
      | Inr C_ss \<Rightarrow>
     (case np_max C_ss of
        Inl e \<Rightarrow> Inl e
      | Inr Cmax \<Rightarrow>
     (case last_item C_ss of
        Inl e \<Rightarrow> Inl e
      | Inr Cmin \<Rightarrow>
     (let AUC = trapezoid C_ss (t_interval m);
          Cavg = np_div AUC (Fin (num_val (tau m)));
          R = np_div (Fin 1) (Fin (1 - exp (- ke m * num_val (tau m))));
          fluctuation = np_mul (np_div (np_sub Cmax Cmin) Cavg) (Fin 100)
      in Inr \<lparr>dc_drug_name = drug_name m, dose_mg = dose m, route = ''oral'',
              time_hours = t,
              concentration_mg_L = map (\<lambda>c. c / 1000) concentration_total,
              absorption_rate = ka m, elimination_rate = ke m,
              volume_distribution = Vd m, bioavailability = F m,
              Cmax_ss = Cmax, Cmin_ss = Cmin, Cavg_ss = Cavg, AUC_ss = AUC,
              accumulation_factor = R, fluctuation_percent = fluctuation\<rparr>))))))"

text \<open>Step 2 of \<open>run_full_simulation\<close>: the engine is constructed with the default
  interval (12 h) and duration (7 days), then simulated.\<close>

definition run_pk_step :: "string \<Rightarrow> real \<Rightarrow> real \<Rightarrow> real \<Rightarrow> py_error + DrugConcentration" where
  "run_pk_step name dose_arg weight_arg duration_hours =
     (case PKModel_init name dose_arg weight_arg (PyInt 12) 7 of
        Inl e \<Rightarrow> Inl e
      | Inr pk \<Rightarrow> simulate pk (Some duration_hours))"


section \<open>Pharmacodynamic engine (\<open>pd_model.py\<close>)\<close>

record hill_params =
  Emax :: real
  EC50 :: real
  gamma :: real

record pd_params =
  HR :: hill_params
  SBP :: hill_params
  DBP :: hill_params
  contractility_hill :: hill_params
  vascular_resistance_hill :: hill_params

text \<open>The default table of \<open>__init__\<close>. Its \<open>'baseline'\<close> entries are never read by
  \<open>compute_effects\<close> and are left out.\<close>

definition default_params :: "string \<rightharpoonup> pd_params" where
  "default_params =
     [''metoprolol'' \<mapsto>
        \<lparr>HR = \<lparr>Emax = 25.0, EC50 = 50.0, gamma = 1.5\<rparr>,
         SBP = \<lparr>Emax = 15.0, EC50 = 80.0, gamma = 1.5\<rparr>,
         DBP = \<lparr>Emax = 10.0, EC50 = 80.0, gamma = 1.5\<rparr>,
         contractility_hill = \<lparr>Emax = 0.2, EC50 = 50.0, gamma = 1.5\<rparr>,
         vascular_resistance_hill = \<lparr>Emax = 0.15, EC50 = 80.0, gamma = 1.5\<rparr>\<rparr>,
      ''atenolol'' \<mapsto>
        \<lparr>HR = \<lparr>Emax = 20.0, EC50 = 100.0, gamma = 1.5\<rparr>,
         SBP = \<lparr>Emax = 12.0, EC50 = 150.0, gamma = 1.5\<rparr>,
         DBP = \<lparr>Emax = 8.0, EC50 = 150.0, gamma = 1.5\<rparr>,
         contractility_hill = \<lparr>Emax = 0.15, EC50 = 100.0, gamma = 1.5\<rparr>,
         vascular_resistance_hill = \<lparr>Emax = 0.12, EC50 = 150.0, gamma = 1.5\<rparr>\<rparr>]"

record PDModel =
  pd_drug_name :: string
  params :: pd_params

text \<open>\<open>PDModel.__init__\<close>. The calibration argument is \<open>None\<close> when no CSV path is given or
  the file does not exist, and otherwise holds what \<open>_fit_from_csv\<close> returned or raised (the
  least-squares fit itself is SciPy's).\<close>

definition PDModel_init :: "string \<Rightarrow> (py_error + pd_params) option \<Rightarrow> py_error + PDModel" where
  "PDModel_init name calibration =
     (let dn = py_lower name in
      case calibration of
        Some (Inl e) \<Rightarrow> Inl e
      | Some (Inr fitted) \<Rightarrow> Inr \<lparr>pd_drug_name = dn, params = fitted\<rparr>
      | None \<Rightarrow>
          Inr \<lparr>pd_drug_name = dn,
               params = (case default_params dn of
                           Some p \<Rightarrow> p
                         | None \<Rightarrow> the (default_params ''metoprolol''))\<rparr>)"

text \<open>\<open>C ** gamma\<close> on a \<open>float64\<close> array element (no exception) and \<open>EC50 ** gamma\<close> on
  two Python floats (zero to a negative power raises; a negative base with a non-integer
  exponent gives a complex number, where the model stops with \<open>ComplexResult\<close>).\<close>

definition np_power :: "real \<Rightarrow> real \<Rightarrow> npfloat" where
  "np_power x y =
     (if 0 < x then Fin (x powr y)
      else if x = 0 then (if 0 < y then Fin 0 else if y = 0 then Fin 1 else PInf)
      else if y \<in> \<int> then Fin (x powi \<lfloor>y\<rfloor>) else NaN)"

definition py_pow :: "real \<Rightarrow> real \<Rightarrow> py_error + real" where
  "py_pow x y =
     (if 0 < x then Inr (x powr y)
      else if x = 0 then (if 0 < y then Inr 0 else if y = 0 then Inr 1
                          else Inl ZeroDivisionError)
      else if y \<in> \<int> then Inr (x powi \<lfloor>y\<rfloor>) else Inl ComplexResult)"

text \<open>\<open>np.clip(a, lo, hi)\<close> is \<open>minimum(maximum(a, lo), hi)\<close>.\<close>

definition np_clip :: "npfloat \<Rightarrow> real \<Rightarrow> real \<Rightarrow> npfloat" where
  "np_clip a lo hi = np_minimum (np_maximum a (Fin lo)) (Fin hi)"

definition hill_equation ::
  "real list \<Rightarrow> real \<Rightarrow> real \<Rightarrow> real \<Rightarrow> py_error + npfloat list" where
  "hill_equation C E_max EC_50 gam =
     (case py_pow EC_50 gam of
        Inl e \<Rightarrow> Inl e
      | Inr k \<Rightarrow>
          Inr (map (\<lambda>c. let effect = np_div (np_mul (Fin E_max) (np_power c gam))
                                            (np_add (Fin k) (np_power c gam))
                         in np_clip effect 0 (E_max * 1.1)) C))"

record PatientBaseline =
  patient_id :: string
  age :: int
  sex :: pyval
  weight :: real
  height :: real
  hr_baseline :: real
  sbp_baseline :: real
  dbp_baseline :: real
  lv_volume :: real
  aortic_pressure :: real
  contractility :: real
  vascular_resistance :: real
  ejection_fraction :: real
  cardiac_output :: real
  arrhythmia_risk :: real

record PhysiologicalEffects =
  pe_drug_name :: string
  pe_time_hours :: "real list"
  delta_hr :: "npfloat list"
  delta_sbp :: "npfloat list"
  delta_dbp :: "npfloat list"
  delta_contractility :: "npfloat list"
  delta_vascular_resistance :: "npfloat list"
  bradycardia_risk :: bool
  hypotension_risk :: bool

definition hill_of :: "hill_params \<Rightarrow> real list \<Rightarrow> py_error + npfloat list" where
  "hill_of h C = hill_equation C (Emax h) (EC50 h) (gamma h)"

text \<open>\<open>PDModel.compute_effects\<close>, from the loaded baseline and concentration records.\<close>

definition compute_effects ::
  "PDModel \<Rightarrow> PatientBaseline \<Rightarrow> DrugConcentration \<Rightarrow> py_error + PhysiologicalEffects" where
  "compute_effects pd baseline drug_conc =
     (let C_ng_mL = map (\<lambda>c. c * 1000) (concentration_mg_L drug_conc) in
      case hill_of (HR (params pd)) C_ng_mL of Inl e \<Rightarrow> Inl e | Inr hr_reduction \<Rightarrow>
      case hill_of (SBP (params pd)) C_ng_mL of Inl e \<Rightarrow> Inl e | Inr sbp_reduction \<Rightarrow>
      case hill_of (DBP (params pd)) C_ng_mL of Inl e \<Rightarrow> Inl e | Inr dbp_reduction \<Rightarrow>
      case hill_of (contractility_hill (params pd)) C_ng_mL of
        Inl e \<Rightarrow> Inl e | Inr contractility_reduction \<Rightarrow>
      case hill_of (vascular_resistance_hill (params pd)) C_ng_mL of
        Inl e \<Rightarrow> Inl e | Inr vascular_resistance_reduction \<Rightarrow>
      (let d_hr = map np_neg hr_reduction;
           d_sbp = map np_neg sbp_reduction
       in case last_item d_hr of Inl e \<Rightarrow> Inl e | Inr last_hr \<Rightarrow>
          case last_item d_sbp of Inl e \<Rightarrow> Inl e | Inr last_sbp \<Rightarrow>
          (let final_hr = np_add (Fin (hr_baseline baseline)) last_hr;
               final_sbp = np_add (Fin (sbp_baseline baseline)) last_sbp
           in Inr \<lparr>pe_drug_name = pd_drug_name pd,
                   pe_time_hours = time_hours drug_conc,
                   delta_hr = d_hr,
                   delta_sbp = d_sbp,
                   delta_dbp = map np_neg dbp_reduction,
                   delta_contractility = map np_neg contractility_reduction,
                   delta_vascular_resistance = map np_neg vascular_resistance_reduction,
                   bradycardia_risk = np_lt final_hr (Fin 60),
                   hypotension_risk = np_lt final_sbp (Fin 90)\<rparr>)))"



section \<open>Baseline initializer and effect propagation (\<open>ode_model.py\<close>)\<close>









text \<open>An adverse-event message with the minimum it prints.\<close>

datatype adverse_event = Bradycardia_risk npfloat | Hypotension_risk npfloat

record SimulationTrajectory =
  traj_patient_id :: string
  drug_applied :: string
  traj_time_hours :: "real list"
  heart_rate :: "npfloat list"
  systolic_bp :: "npfloat list"
  diastolic_bp :: "npfloat list"
  traj_cardiac_output :: "npfloat list"
  traj_ejection_fraction :: "npfloat list"
  mean_arterial_pressure :: "npfloat list"
  stroke_volume :: "npfloat list"
  hr_percent_change :: npfloat
  bp_percent_change :: npfloat
  adverse_events :: "adverse_event list"

text \<open>The series \<open>simulate_with_effects\<close> builds from one input array each.\<close>

definition hr_series :: "PatientBaseline \<Rightarrow> PhysiologicalEffects \<Rightarrow> npfloat list" where
  "hr_series b e = map (np_add (Fin (hr_baseline b))) (delta_hr e)"

definition sbp_series :: "PatientBaseline \<Rightarrow> PhysiologicalEffects \<Rightarrow> npfloat list" where
  "sbp_series b e = map (np_add (Fin (sbp_baseline b))) (delta_sbp e)"

definition dbp_series :: "PatientBaseline \<Rightarrow> PhysiologicalEffects \<Rightarrow> npfloat list" where
  "dbp_series b e = map (np_add (Fin (dbp_baseline b))) (delta_dbp e)"

definition contractility_series :: "PatientBaseline \<Rightarrow> PhysiologicalEffects \<Rightarrow> npfloat list" where
  "contractility_series b e =
     map (\<lambda>d. np_mul (Fin (contractility b)) (np_add (Fin 1.0) d)) (delta_contractility e)"

definition vr_series :: "PatientBaseline \<Rightarrow> PhysiologicalEffects \<Rightarrow> npfloat list" where
  "vr_series b e =
     map (\<lambda>d. np_mul (Fin (vascular_resistance b)) (np_add (Fin 1.0) d))
         (delta_vascular_resistance e)"

definition co_series :: "PatientBaseline \<Rightarrow> PhysiologicalEffects \<Rightarrow> npfloat list" where
  "co_series b e =
     map (\<lambda>c. np_mul (Fin (cardiac_output b)) (np_div c (Fin (contractility b))))
         (contractility_series b e)"

definition ef_series :: "PatientBaseline \<Rightarrow> PhysiologicalEffects \<Rightarrow> npfloat list" where
  "ef_series b e =
     map (\<lambda>c. np_mul (Fin (ejection_fraction b)) (np_div c (Fin (contractility b))))
         (contractility_series b e)"

text \<open>\<open>np.where(hr_series <= 0, 1.0, hr_series)\<close>.\<close>

definition hr_safe :: "PatientBaseline \<Rightarrow> PhysiologicalEffects \<Rightarrow> npfloat list" where
  "hr_safe b e = map (\<lambda>h. if np_le h (Fin 0) then Fin 1.0 else h) (hr_series b e)"

text \<open>The printed daily summary indexes the series at the sample nearest to each full day;
  it runs before the function returns, so its exceptions are the function's.\<close>

definition daily_summary ::
  "real list \<Rightarrow> npfloat list \<Rightarrow> npfloat list \<Rightarrow> npfloat list \<Rightarrow> py_error + unit list" where
  "daily_summary t hr sbp co =
     (let duration = (if length t > 0 then last t else 0.0);
          num_days = max 1 \<lfloor>duration / 24\<rfloor>
      in sequence_err
           (map (\<lambda>day. let target_t = 24 * (real day + 1) in
                   case np_argmin (map (\<lambda>x. \<bar>x - target_t\<bar>) t) of
                     Inl e \<Rightarrow> Inl e
                   | Inr idx \<Rightarrow>
                       if idx < length hr \<and> idx < length sbp \<and> idx < length co
                       then Inr () else Inl IndexError)
                [0..<nat num_days]))"

text \<open>\<open>CardiovascularODE.simulate_with_effects\<close>, from the loaded baseline and effects
  records.\<close>

definition simulate_with_effects ::
  "PatientBaseline \<Rightarrow> PhysiologicalEffects \<Rightarrow> py_error + SimulationTrajectory" where
  "simulate_with_effects b e =
     (case np_broadcast (\<lambda>c h. np_div (np_mul c (Fin 1000.0)) h) (co_series b e) (hr_safe b e) of
        Inl err \<Rightarrow> Inl err | Inr stroke_volume_series \<Rightarrow>
      case np_broadcast np_sub (sbp_series b e) (dbp_series b e) of
        Inl err \<Rightarrow> Inl err | Inr pulse \<Rightarrow>
      case np_broadcast np_add (dbp_series b e) (map (\<lambda>p. np_div p (Fin 3.0)) pulse) of
        Inl err \<Rightarrow> Inl err | Inr map_series \<Rightarrow>
      case last_item (hr_series b e) of Inl err \<Rightarrow> Inl err | Inr hr_last \<Rightarrow>
      case last_item (sbp_series b e) of Inl err \<Rightarrow> Inl err | Inr sbp_last \<Rightarrow>
      case np_min (hr_series b e) of Inl err \<Rightarrow> Inl err | Inr min_hr \<Rightarrow>
      case np_min (sbp_series b e) of Inl err \<Rightarrow> Inl err | Inr min_sbp \<Rightarrow>
      case daily_summary (pe_time_hours e) (hr_series b e) (sbp_series b e) (co_series b e) of
        Inl err \<Rightarrow> Inl err | Inr printed \<Rightarrow>
        Inr \<lparr>traj_patient_id = patient_id b,
             drug_applied = pe_drug_name e,
             traj_time_hours = pe_time_hours e,
             heart_rate = hr_series b e,
             systolic_bp = sbp_series b e,
             diastolic_bp = dbp_series b e,
             traj_cardiac_output = co_series b e,
             traj_ejection_fraction = ef_series b e,
             mean_arterial_pressure = map_series,
             stroke_volume = stroke_volume_series,
             hr_percent_change =
               np_mul (np_div (np_sub hr_last (Fin (hr_baseline b))) (Fin (hr_baseline b)))
                      (Fin 100.0),
             bp_percent_change =
               np_mul (np_div (np_sub sbp_last (Fin (sbp_baseline b))) (Fin (sbp_baseline b)))
                      (Fin 100.0),
             adverse_events =
               (if bradycardia_risk e \<or> np_lt min_hr (Fin 60) then [Bradycardia_risk min_hr]
                else []) @
               (if hypotension_risk e \<or> np_lt min_sbp (Fin 90) then [Hypotension_risk min_sbp]
                else [])\<rparr>)"


section \<open>Feature extractor (\<open>orchestrator.py\<close>)\<close>


section \<open>Conditions and concrete inputs used in the statements\<close>

text \<open>A metoprolol regimen: 50 mg every 12 hours for 7 days, 70 kg.\<close>

definition pk_example :: PKModel where
  "pk_example = \<lparr>drug_name = ''metoprolol'', dose = 50, pk_weight = 70, tau = PyInt 12,
                 n_days = 7, ka = 1.5, ke = 0.20, Vd = 5.5 * 70, F = 0.50\<rparr>"






text \<open>The clipped Hill value on real numbers, and the condition on a parameter table under
  which no \<open>EC50 ** gamma\<close> raises.\<close>

definition hill_value :: "real \<Rightarrow> real \<Rightarrow> real \<Rightarrow> real \<Rightarrow> real" where
  "hill_value E K g c = min (max (E * c powr g / (K powr g + c powr g)) 0) (E * 1.1)"

definition ec50_positive :: "pd_params \<Rightarrow> bool" where
  "ec50_positive ps = (0 < EC50 (HR ps) \<and> 0 < EC50 (SBP ps) \<and> 0 < EC50 (DBP ps) \<and>
       0 < EC50 (contractility_hill ps) \<and> 0 < EC50 (vascular_resistance_hill ps))"

text \<open>A fitted parameter table, a baseline and a two-sample concentration record for the
  concrete runs.\<close>

definition pd_example :: PDModel where
  "pd_example =
     \<lparr>pd_drug_name = ''metoprolol'',
      params = \<lparr>HR = \<lparr>Emax = 40.0, EC50 = 50.0, gamma = 1.5\<rparr>,
                SBP = \<lparr>Emax = 15.0, EC50 = 80.0, gamma = 1.5\<rparr>,
                DBP = \<lparr>Emax = 10.0, EC50 = 80.0, gamma = 1.5\<rparr>,
                contractility_hill = \<lparr>Emax = 0.2, EC50 = 50.0, gamma = 1.5\<rparr>,
                vascular_resistance_hill = \<lparr>Emax = 0.15, EC50 = 80.0, gamma = 1.5\<rparr>\<rparr>\<rparr>"

definition baseline_example :: PatientBaseline where
  "baseline_example =
     \<lparr>patient_id = ''demo'', age = 55, sex = PyStr ''M'', weight = 82, height = 175,
      hr_baseline = 75, sbp_baseline = 120, dbp_baseline = 80,
      lv_volume = 120.0, aortic_pressure = 120, contractility = 1.0,
      vascular_resistance = 18.0, ejection_fraction = 0.60, cardiac_output = 5.0,
      arrhythmia_risk = 0.1\<rparr>"

definition dc_example :: DrugConcentration where
  "dc_example =
     \<lparr>dc_drug_name = ''metoprolol'', dose_mg = 50, route = ''oral'',
      time_hours = [0, 1], concentration_mg_L = [0.05, 0.05],
      absorption_rate = 1.5, elimination_rate = 0.20, volume_distribution = 5.5 * 82,
      bioavailability = 0.50, Cmax_ss = Fin 0, Cmin_ss = Fin 0, Cavg_ss = Fin 0,
      AUC_ss = Fin 0, accumulation_factor = Fin 1, fluctuation_percent = Fin 0\<rparr>"

text \<open>The metoprolol row of the PD default table.\<close>

definition metoprolol_defaults :: pd_params where
  "metoprolol_defaults =
     \<lparr>HR = \<lparr>Emax = 25.0, EC50 = 50.0, gamma = 1.5\<rparr>,
      SBP = \<lparr>Emax = 15.0, EC50 = 80.0, gamma = 1.5\<rparr>,
      DBP = \<lparr>Emax = 10.0, EC50 = 80.0, gamma = 1.5\<rparr>,
      contractility_hill = \<lparr>Emax = 0.2, EC50 = 50.0, gamma = 1.5\<rparr>,
      vascular_resistance_hill = \<lparr>Emax = 0.15, EC50 = 80.0, gamma = 1.5\<rparr>\<rparr>"

text \<open>The index \<open>np.argmin\<close> selects for a target time, and a four-sample trajectory for the
  concrete runs.\<close>

definition nearest_index :: "real list \<Rightarrow> real \<Rightarrow> nat" where
  "nearest_index t future = projr (np_argmin (map (\<lambda>x. \<bar>x - future\<bar>) t))"



text \<open>Effects whose five delta series and time axis share one positive length, effects
  that are identically zero, and a baseline the initializer returns for a heart rate of 0.\<close>

definition aligned :: "PhysiologicalEffects \<Rightarrow> nat \<Rightarrow> bool" where
  "aligned e n =
     (0 < n \<and> length (pe_time_hours e) = n \<and> length (delta_hr e) = n \<and>
      length (delta_sbp e) = n \<and> length (delta_dbp e) = n \<and>
      length (delta_contractility e) = n \<and> length (delta_vascular_resistance e) = n)"

definition null_effects :: "PhysiologicalEffects \<Rightarrow> nat \<Rightarrow> bool" where
  "null_effects e n =
     (aligned e n \<and> delta_hr e = replicate n (Fin 0) \<and> delta_sbp e = replicate n (Fin 0) \<and>
      delta_dbp e = replicate n (Fin 0) \<and> delta_contractility e = replicate n (Fin 0) \<and>
      delta_vascular_resistance e = replicate n (Fin 0))"

definition zero_effects_example :: PhysiologicalEffects where
  "zero_effects_example =
     \<lparr>pe_drug_name = ''metoprolol'', pe_time_hours = [0, 84, 168],
      delta_hr = [Fin 0, Fin 0, Fin 0], delta_sbp = [Fin 0, Fin 0, Fin 0],
      delta_dbp = [Fin 0, Fin 0, Fin 0], delta_contractility = [Fin 0, Fin 0, Fin 0],
      delta_vascular_resistance = [Fin 0, Fin 0, Fin 0],
      bradycardia_risk = False, hypotension_risk = False\<rparr>"

definition zero_hr_baseline :: PatientBaseline where
  "zero_hr_baseline =
     \<lparr>patient_id = ''unknown'', age = 50, sex = PyStr ''M'', weight = 70, height = 170,
      hr_baseline = 0, sbp_baseline = 120, dbp_baseline = 80,
      lv_volume = 120.0, aortic_pressure = 120, contractility = 1.0,
      vascular_resistance = 18, ejection_fraction = 0.60,
      cardiac_output = 5, arrhythmia_risk = 0.1\<rparr>"





section \<open>Superposition\<close>

lemma finite_administered: "finite (administered m t n i0)"
  by (rule finite_subset[of _ "{i0..<n}"]) (auto simp: administered_def)

lemma administered_step:
  assumes "i < n"
  shows "administered m t n i =
     (if of_int i * num_val (tau m) \<le> t then insert i (administered m t n (i + 1))
      else administered m t n (i + 1))"
proof -
  have split: "\<And>x. i \<le> x \<longleftrightarrow> x = i \<or> i + 1 \<le> x" by arith
  from assms show ?thesis
    unfolding administered_def by (subst split) auto
qed

lemma administered_done: "\<not> i < n \<Longrightarrow> administered m t n i = {}"
  by (auto simp: administered_def)

lemma C_single_error: "C_single m t = Inl e \<Longrightarrow> e = ZeroDivisionError"
  by (auto simp: C_single_def py_truediv_def split: if_splits)

lemma C_multiple_loop_sum:
  "C_multiple_loop m t n i tot =
     (if \<exists>j\<in>administered m t n i. isl (C_single m (t - of_int j * num_val (tau m)))
      then Inl ZeroDivisionError
      else Inr (tot + (\<Sum>j\<in>administered m t n i.
                         projr (C_single m (t - of_int j * num_val (tau m))))))"
proof (induction m t n i tot rule: C_multiple_loop.induct)
  case (1 m t n i tot)
  show ?case
  proof (cases "i < n")
    case False
    then show ?thesis
      by (subst C_multiple_loop.simps) (simp add: administered_done)
  next
    case lt: True
    show ?thesis
    proof (cases "of_int i * num_val (tau m) \<le> t")
      case False
      with lt 1(2)[OF lt refl] show ?thesis
        by (subst C_multiple_loop.simps) (simp add: administered_step[OF lt])
    next
      case ge: True
      have fresh: "i \<notin> administered m t n (i + 1)"
        by (simp add: administered_def)
      show ?thesis
      proof (cases "C_single m (t - of_int i * num_val (tau m))")
        case (Inl e)
        with lt ge C_single_error[OF Inl] show ?thesis
          by (subst C_multiple_loop.simps) (simp add: administered_step[OF lt])
      next
        case (Inr c)
        with lt ge 1(1)[OF lt refl _ Inr] show ?thesis
          by (subst C_multiple_loop.simps)
             (simp add: administered_step[OF lt] finite_administered fresh add.assoc)
      qed
    qed
  qed
qed

text \<open>
  Claim C1. For every time \<open>t\<close> and dose count \<open>n_doses\<close>, \<open>C_multiple t n_doses\<close> is the sum
  of \<open>C_single (t - i * tau)\<close> over the dose indices \<open>i\<close> in \<open>[0, n_doses)\<close> with
  \<open>i * tau \<le> t\<close>; doses given after \<open>t\<close> contribute nothing. Where one of these
  \<open>C_single\<close> calls raises (its divisor \<open>Vd * (ka - ke)\<close> is zero), so does \<open>C_multiple\<close>.
\<close>

theorem C_multiple_superposition:
  "C_multiple m t n_doses =
     (if \<exists>i\<in>administered m t n_doses 0. isl (C_single m (t - of_int i * num_val (tau m)))
      then Inl ZeroDivisionError
      else Inr (\<Sum>i\<in>administered m t n_doses 0.
                  projr (C_single m (t - of_int i * num_val (tau m)))))"
  unfolding C_multiple_def by (simp only: C_multiple_loop_sum add_0)

lemma lower_ascii_evals:
  "py_lower ''Metoprolol'' = ''metoprolol''"
  "py_lower ''metoprolol'' = ''metoprolol''"
  "py_lower ''Atenolol'' = ''atenolol''"
  "py_lower ''fakedrug'' = ''fakedrug''"
  by (simp_all add: py_lower_def lower_char_def char_of_def bit_iff_odd)

lemma administered_example: "administered pk_example 30 14 0 = {0, 1, 2}"
  by (auto simp: administered_def pk_example_def)

lemma C_single_example:
  "C_single pk_example t =
     Inr (if t < 0 then 0
          else (0.5 * 50 * 1.5) / (5.5 * 70 * (1.5 - 0.2)) * (exp (- 0.2 * t) - exp (- 1.5 * t))
               * 1000)"
  by (simp add: C_single_def py_truediv_def pk_example_def)

theorem C_multiple_superposition_witness:
  "C_multiple pk_example 30 14 =
     Inr (projr (C_single pk_example 30) + projr (C_single pk_example 18)
          + projr (C_single pk_example 6))"
  using C_multiple_superposition[of pk_example 30 14]
  by (simp add: administered_example C_single_example) (simp add: pk_example_def)


section \<open>Unknown drug names\<close>

lemma dom_DRUG_PARAMS: "dom DRUG_PARAMS = {''metoprolol'', ''atenolol''}"
  by (auto simp: DRUG_PARAMS_def)

text \<open>
  Claim C2, as stated: every drug name that is not a key of the registry makes the
  construction raise. The name \<open>Metoprolol\<close> is not a key, and the construction succeeds,
  because the name is lower-cased before the look-up.
\<close>

theorem PKModel_init_capitalised_counterexample:
  "''Metoprolol'' \<notin> dom DRUG_PARAMS \<and>
   PKModel_init ''Metoprolol'' 50 70 (PyInt 12) 7 = Inr pk_example"
  by (simp add: PKModel_init_def lower_ascii_evals dom_DRUG_PARAMS)
     (simp add: DRUG_PARAMS_def pk_example_def)

text \<open>
  Claim C2, amended: for every drug name whose lower-cased form is not a key of the PK
  registry, constructing the PK engine raises \<open>ValueError\<close>, and the PK step of the pipeline
  ends with that error without simulating (no time axis or concentration array is built);
  for a name whose lower-cased form is a registry key (metoprolol, atenolol in any letter
  case) the construction returns the engine with that drug's constants.
\<close>

theorem PKModel_init_unknown_drug:
  "(py_lower name \<notin> dom DRUG_PARAMS \<longrightarrow>
      PKModel_init name d w tau_hours days = Inl ValueError \<and>
      run_pk_step name d w duration = Inl ValueError) \<and>
   (DRUG_PARAMS (py_lower name) = Some p \<longrightarrow>
      PKModel_init name d w tau_hours days =
        Inr \<lparr>drug_name = py_lower name, dose = d, pk_weight = w, tau = tau_hours,
             n_days = days, ka = p_ka p, ke = p_ke p, Vd = p_Vd p * w, F = p_F p\<rparr>)"
  by (auto simp: PKModel_init_def run_pk_step_def Let_def domIff split: option.splits)

theorem PKModel_init_unknown_drug_witness:
  "py_lower ''fakedrug'' \<notin> dom DRUG_PARAMS \<and>
   PKModel_init ''fakedrug'' 50 70 (PyInt 12) 7 = Inl ValueError \<and>
   run_pk_step ''fakedrug'' 50 70 168 = Inl ValueError \<and>
   DRUG_PARAMS (py_lower ''Atenolol'') =
     Some \<lparr>p_ka = 1.0, p_ke = 0.12, p_Vd = 1.2, p_F = 0.60\<rparr> \<and>
   PKModel_init ''Atenolol'' 50 70 (PyInt 12) 7 =
     Inr \<lparr>drug_name = ''atenolol'', dose = 50, pk_weight = 70, tau = PyInt 12,
          n_days = 7, ka = 1.0, ke = 0.12, Vd = 1.2 * 70, F = 0.60\<rparr>"
proof -
  have unknown: "py_lower ''fakedrug'' \<notin> dom DRUG_PARAMS"
    by (simp add: lower_ascii_evals dom_DRUG_PARAMS)
  have known: "DRUG_PARAMS (py_lower ''Atenolol'') =
      Some \<lparr>p_ka = 1.0, p_ke = 0.12, p_Vd = 1.2, p_F = 0.60\<rparr>"
    by (simp add: lower_ascii_evals DRUG_PARAMS_def)
  from PKModel_init_unknown_drug[of "''fakedrug''" 50 70 "PyInt 12" 7 168] unknown
       PKModel_init_unknown_drug[of "''Atenolol''" 50 70 "PyInt 12" 7, THEN conjunct2,
                                 rule_format, OF known]
  show ?thesis
    by (simp add: known) (simp add: lower_ascii_evals)
qed


section \<open>Baseline initializer\<close>






section \<open>Hill equation\<close>

lemma np_power_nonneg: "0 \<le> c \<Longrightarrow> 0 < g \<Longrightarrow> np_power c g = Fin (c powr g)"
  by (auto simp: np_power_def)

lemma py_pow_pos: "0 < K \<Longrightarrow> py_pow K g = Inr (K powr g)"
  by (simp add: py_pow_def)

lemma np_clip_Fin: "np_clip (Fin x) lo hi = Fin (min (max x lo) hi)"
  by (auto simp: np_clip_def min_def max_def)

lemma hill_elem:
  assumes "0 < K" "0 < g" "0 \<le> c"
  shows "np_clip (np_div (np_mul (Fin E) (np_power c g)) (np_add (Fin (K powr g)) (np_power c g))) 0 (E * 1.1)
         = Fin (hill_value E K g c)"
proof -
  have "0 < K powr g" using assms by simp
  moreover have "0 \<le> c powr g" by simp
  ultimately have "K powr g + c powr g \<noteq> 0" by linarith
  then show ?thesis
    using assms by (simp add: np_power_nonneg np_clip_Fin hill_value_def)
qed

lemma hill_equation_Fin:
  assumes "0 < K" "0 < g" "\<forall>c\<in>set C. 0 \<le> c"
  shows "hill_equation C E K g = Inr (map (\<lambda>c. Fin (hill_value E K g c)) C)"
proof -
  have "hill_equation C E K g =
      Inr (map (\<lambda>c. np_clip (np_div (np_mul (Fin E) (np_power c g))
                                    (np_add (Fin (K powr g)) (np_power c g))) 0 (E * 1.1)) C)"
    by (simp only: hill_equation_def py_pow_pos[OF assms(1)] sum.case Let_def)
  also have "map (\<lambda>c. np_clip (np_div (np_mul (Fin E) (np_power c g))
                                    (np_add (Fin (K powr g)) (np_power c g))) 0 (E * 1.1)) C
      = map (\<lambda>c. Fin (hill_value E K g c)) C"
    using assms by (intro map_cong refl hill_elem) auto
  finally show ?thesis .
qed






section \<open>Safety flags of the PD engine\<close>

lemma hill_of_returns:
  assumes "0 < EC50 h"
  shows "\<exists>ys. hill_of h C = Inr ys \<and> length ys = length C"
  using assms by (simp add: hill_of_def hill_equation_def py_pow_def)

lemma last_item_map_neg:
  "ys \<noteq> [] \<Longrightarrow> last_item (map np_neg ys) = Inr (np_neg (last ys))"
  by (simp add: last_item_def last_map)

text \<open>
  Claim C4. For every baseline and every concentration record (with at least one sample, so
  that a final timestep exists, and Hill parameters with positive \<open>EC50\<close> as the default table
  and every fit have), \<open>compute_effects\<close> returns effects whose \<open>bradycardia_risk\<close> is true
  exactly when baseline HR plus the last \<open>delta_hr\<close> is below 60 and whose
  \<open>hypotension_risk\<close> is true exactly when baseline SBP plus the last \<open>delta_sbp\<close> is below 90;
  with baseline HR 75 and a constant \<open>delta_hr\<close> of -20 the final HR is 55 and
  \<open>bradycardia_risk\<close> is true.
\<close>

theorem compute_effects_safety_flags:
  assumes pos: "ec50_positive (params pd)" and ne: "concentration_mg_L dc \<noteq> []"
  shows "\<exists>e. compute_effects pd b dc = Inr e \<and> delta_hr e \<noteq> [] \<and> delta_sbp e \<noteq> [] \<and>
     (bradycardia_risk e \<longleftrightarrow>
        np_lt (np_add (Fin (hr_baseline b)) (last (delta_hr e))) (Fin 60)) \<and>
     (hypotension_risk e \<longleftrightarrow>
        np_lt (np_add (Fin (sbp_baseline b)) (last (delta_sbp e))) (Fin 90)) \<and>
     (hr_baseline b = 75 \<and> (\<forall>d\<in>set (delta_hr e). d = Fin (- 20)) \<longrightarrow>
        np_add (Fin (hr_baseline b)) (last (delta_hr e)) = Fin 55 \<and> bradycardia_risk e)"
proof -
  let ?C = "map (\<lambda>c. c * 1000) (concentration_mg_L dc)"
  from pos have p: "0 < EC50 (HR (params pd))" "0 < EC50 (SBP (params pd))"
    "0 < EC50 (DBP (params pd))" "0 < EC50 (contractility_hill (params pd))"
    "0 < EC50 (vascular_resistance_hill (params pd))"
    by (simp_all add: ec50_positive_def)
  from hill_of_returns[OF p(1), of ?C] obtain r1 where r1:
    "hill_of (HR (params pd)) ?C = Inr r1" "length r1 = length ?C" by auto
  from hill_of_returns[OF p(2), of ?C] obtain r2 where r2:
    "hill_of (SBP (params pd)) ?C = Inr r2" "length r2 = length ?C" by auto
  from hill_of_returns[OF p(3), of ?C] obtain r3 where r3:
    "hill_of (DBP (params pd)) ?C = Inr r3" by auto
  from hill_of_returns[OF p(4), of ?C] obtain r4 where r4:
    "hill_of (contractility_hill (params pd)) ?C = Inr r4" by auto
  from hill_of_returns[OF p(5), of ?C] obtain r5 where r5:
    "hill_of (vascular_resistance_hill (params pd)) ?C = Inr r5" by auto
  from r1(2) r2(2) ne have n1: "r1 \<noteq> []" and n2: "r2 \<noteq> []" by auto
  let ?e = "\<lparr>pe_drug_name = pd_drug_name pd, pe_time_hours = time_hours dc,
             delta_hr = map np_neg r1, delta_sbp = map np_neg r2, delta_dbp = map np_neg r3,
             delta_contractility = map np_neg r4, delta_vascular_resistance = map np_neg r5,
             bradycardia_risk =
               np_lt (np_add (Fin (hr_baseline b)) (np_neg (last r1))) (Fin 60),
             hypotension_risk =
               np_lt (np_add (Fin (sbp_baseline b)) (np_neg (last r2))) (Fin 90)\<rparr>"
  have eq: "compute_effects pd b dc = Inr ?e"
    by (simp add: compute_effects_def Let_def r1(1) r2(1) r3 r4 r5
                  last_item_map_neg[OF n1] last_item_map_neg[OF n2])
  have scen: "hr_baseline b = 75 \<and> (\<forall>d\<in>set (map np_neg r1). d = Fin (- 20)) \<longrightarrow>
        np_add (Fin (hr_baseline b)) (last (map np_neg r1)) = Fin 55 \<and>
        np_lt (np_add (Fin (hr_baseline b)) (np_neg (last r1))) (Fin 60)"
  proof (intro impI, elim conjE)
    assume h: "hr_baseline b = 75" and c: "\<forall>d\<in>set (map np_neg r1). d = Fin (- 20)"
    from n1 have "last (map np_neg r1) \<in> set (map np_neg r1)" by (intro last_in_set) simp
    with c have l: "last (map np_neg r1) = Fin (- 20)" by blast
    then have l2: "np_neg (last r1) = Fin (- 20)" using n1 by (simp add: last_map)
    show "np_add (Fin (hr_baseline b)) (last (map np_neg r1)) = Fin 55 \<and>
        np_lt (np_add (Fin (hr_baseline b)) (np_neg (last r1))) (Fin 60)"
      by (simp add: h l l2)
  qed
  show ?thesis
    unfolding eq using n1 n2 scen
    by (intro exI[of _ ?e]) (simp add: last_map)
qed

lemma hill_of_example: "hill_of (HR (params pd_example)) [50, 50] = Inr [Fin 20, Fin 20]"
proof -
  have k: "(0::real) < 50 powr (3/2)" by simp
  have "hill_value 40 50 (3/2) 50 = 20"
    using k by (simp add: hill_value_def field_simps)
  moreover have "hill_of (HR (params pd_example)) [50, 50] =
      Inr (map (\<lambda>c. Fin (hill_value 40 50 (3/2) c)) [50, 50])"
    unfolding hill_of_def pd_example_def
    by (simp add: hill_equation_Fin)
  ultimately show ?thesis by simp
qed

theorem compute_effects_safety_flags_witness:
  "ec50_positive (params pd_example) \<and> concentration_mg_L dc_example \<noteq> [] \<and>
   hr_baseline baseline_example = 75 \<and>
   delta_hr (projr (compute_effects pd_example baseline_example dc_example)) = [Fin (- 20), Fin (- 20)] \<and>
   np_add (Fin (hr_baseline baseline_example))
          (last (delta_hr (projr (compute_effects pd_example baseline_example dc_example)))) = Fin 55 \<and>
   bradycardia_risk (projr (compute_effects pd_example baseline_example dc_example))"
proof -
  have pos: "ec50_positive (params pd_example)"
    by (simp add: ec50_positive_def pd_example_def)
  have ne: "concentration_mg_L dc_example \<noteq> []" by (simp add: dc_example_def)
  from compute_effects_safety_flags[OF pos ne, of baseline_example]
  obtain e where e: "compute_effects pd_example baseline_example dc_example = Inr e"
    and br: "hr_baseline baseline_example = 75 \<and> (\<forall>d\<in>set (delta_hr e). d = Fin (- 20)) \<longrightarrow>
        np_add (Fin (hr_baseline baseline_example)) (last (delta_hr e)) = Fin 55 \<and> bradycardia_risk e"
    by blast
  have C: "map (\<lambda>c. c * 1000) (concentration_mg_L dc_example) = [50, 50]"
    by (simp add: dc_example_def)
  have d: "delta_hr e = [Fin (- 20), Fin (- 20)]"
    using e unfolding compute_effects_def Let_def C hill_of_example
    by (auto split: sum.splits)
  have h75: "hr_baseline baseline_example = 75" by (simp add: baseline_example_def)
  from br h75 d have "np_add (Fin (hr_baseline baseline_example)) (last (delta_hr e)) = Fin 55"
    and "bradycardia_risk e" by simp_all
  with pos ne h75 d e show ?thesis by simp
qed

section \<open>Default Hill parameters of an unknown drug\<close>

lemma dom_default_params: "dom default_params = {''metoprolol'', ''atenolol''}"
  by (auto simp: default_params_def)

lemma default_metoprolol: "default_params ''metoprolol'' = Some metoprolol_defaults"
  by (simp add: default_params_def metoprolol_defaults_def)

text \<open>
  Claim C10, as stated: every drug name that is not a key of the PD default table gets the
  metoprolol defaults. The name \<open>Atenolol\<close> is not a key and gets the atenolol row, because
  the name is lower-cased before the look-up.
\<close>

theorem PDModel_init_capitalised_counterexample:
  "''Atenolol'' \<notin> dom default_params \<and>
   PDModel_init ''Atenolol'' None =
     Inr \<lparr>pd_drug_name = ''atenolol'', params = the (default_params ''atenolol'')\<rparr> \<and>
   Emax (HR (the (default_params ''atenolol''))) = 20 \<and>
   Emax (HR (the (default_params ''metoprolol''))) = 25"
  by (simp add: PDModel_init_def lower_ascii_evals dom_default_params)
     (simp add: default_params_def)

lemma compute_effects_name:
  "compute_effects \<lparr>pd_drug_name = n, params = P\<rparr> b dc =
     map_sum id (\<lambda>e. e\<lparr>pe_drug_name := n\<rparr>)
       (compute_effects \<lparr>pd_drug_name = n', params = P\<rparr> b dc)"
  by (simp add: compute_effects_def Let_def split: sum.splits)

text \<open>
  Claim C10, amended: for every drug name whose lower-cased form is not a key of the PD
  default table, constructing the PD engine without a calibration dataset raises nothing
  and installs the metoprolol default Hill parameters for all five endpoints, so that
  \<open>compute_effects\<close> gives what it gives for metoprolol, apart from the drug name it
  records.
\<close>

theorem PDModel_init_unknown_drug_defaults:
  assumes "py_lower name \<notin> dom default_params"
  shows "PDModel_init name None =
           Inr \<lparr>pd_drug_name = py_lower name, params = metoprolol_defaults\<rparr> \<and>
         PDModel_init ''metoprolol'' None =
           Inr \<lparr>pd_drug_name = ''metoprolol'', params = metoprolol_defaults\<rparr> \<and>
         compute_effects (projr (PDModel_init name None)) b dc =
           map_sum id (\<lambda>e. e\<lparr>pe_drug_name := py_lower name\<rparr>)
             (compute_effects (projr (PDModel_init ''metoprolol'' None)) b dc)"
proof -
  from assms have none: "default_params (py_lower name) = None" by (simp add: domIff)
  have a: "PDModel_init name None =
      Inr \<lparr>pd_drug_name = py_lower name, params = metoprolol_defaults\<rparr>"
    by (simp add: PDModel_init_def Let_def none default_metoprolol)
  have b: "PDModel_init ''metoprolol'' None =
      Inr \<lparr>pd_drug_name = ''metoprolol'', params = metoprolol_defaults\<rparr>"
    by (simp add: PDModel_init_def Let_def lower_ascii_evals default_metoprolol)
  show ?thesis
    unfolding a b by (simp add: compute_effects_name[of "py_lower name" _ _ _ "''metoprolol''"])
qed

theorem PDModel_init_unknown_drug_defaults_witness:
  "py_lower ''fakedrug'' \<notin> dom default_params \<and>
   PDModel_init ''fakedrug'' None =
     Inr \<lparr>pd_drug_name = ''fakedrug'', params = metoprolol_defaults\<rparr>"
proof -
  have u: "py_lower ''fakedrug'' \<notin> dom default_params"
    by (simp add: lower_ascii_evals dom_default_params)
  from PDModel_init_unknown_drug_defaults[OF u] u show ?thesis
    by (simp add: lower_ascii_evals)
qed

section \<open>The 24-hour-ahead target\<close>

lemma argmin_from_spec:
  assumes "bi < length pre" "pre ! bi = best"
    "\<forall>k<length pre. best \<le> pre ! k" "\<forall>k<bi. best < pre ! k"
  shows "argmin_from xs (length pre) best bi < length (pre @ xs) \<and>
         (\<forall>k<length (pre @ xs). (pre @ xs) ! argmin_from xs (length pre) best bi \<le> (pre @ xs) ! k) \<and>
         (\<forall>k<argmin_from xs (length pre) best bi.
             (pre @ xs) ! argmin_from xs (length pre) best bi < (pre @ xs) ! k)"
  using assms
proof (induction xs arbitrary: pre best bi)
  case Nil
  then show ?case by simp
next
  case (Cons x xs)
  let ?pre = "pre @ [x]"
  have len: "length ?pre = length pre + 1" by simp
  have app: "pre @ x # xs = ?pre @ xs" by simp
  show ?case
  proof (cases "x < best")
    case True
    have 1: "length pre < length ?pre" by simp
    have 2: "?pre ! length pre = x" by simp
    have 3: "\<forall>k<length ?pre. x \<le> ?pre ! k"
    proof (intro allI impI)
      fix k assume "k < length ?pre"
      then consider "k < length pre" | "k = length pre" by fastforce
      then show "x \<le> ?pre ! k"
      proof cases
        case 1
        with Cons.prems(3) True show ?thesis by (simp add: nth_append) (meson less_le_trans less_imp_le)
      next
        case 2
        then show ?thesis by simp
      qed
    qed
    have 4: "\<forall>k<length pre. x < ?pre ! k"
      using Cons.prems(3) True by (simp add: nth_append) (meson less_le_trans)
    from Cons.IH[OF 1 2 3 4] True show ?thesis
      unfolding app by (simp del: append_assoc append.simps)
  next
    case False
    have 1: "bi < length ?pre" using Cons.prems(1) by simp
    have 2: "?pre ! bi = best" using Cons.prems(1,2) by (simp add: nth_append)
    have 3: "\<forall>k<length ?pre. best \<le> ?pre ! k"
    proof (intro allI impI)
      fix k assume "k < length ?pre"
      then consider "k < length pre" | "k = length pre" by fastforce
      then show "best \<le> ?pre ! k"
      proof cases
        case 1
        with Cons.prems(3) show ?thesis by (simp add: nth_append)
      next
        case 2
        with False show ?thesis by simp
      qed
    qed
    have 4: "\<forall>k<bi. best < ?pre ! k"
      using Cons.prems(1,4) by (simp add: nth_append)
    from Cons.IH[OF 1 2 3 4] False show ?thesis
      unfolding app by (simp del: append_assoc append.simps)
  qed
qed

lemma np_argmin_spec:
  assumes "xs \<noteq> []"
  shows "\<exists>j. np_argmin xs = Inr j \<and> j < length xs \<and> (\<forall>k<length xs. xs ! j \<le> xs ! k) \<and>
             (\<forall>k<j. xs ! j < xs ! k)"
proof -
  from assms obtain x rest where xs: "xs = x # rest" by (cases xs) auto
  have "argmin_from rest (length [x]) x 0 < length ([x] @ rest) \<and>
         (\<forall>k<length ([x] @ rest). ([x] @ rest) ! argmin_from rest (length [x]) x 0 \<le> ([x] @ rest) ! k) \<and>
         (\<forall>k<argmin_from rest (length [x]) x 0.
             ([x] @ rest) ! argmin_from rest (length [x]) x 0 < ([x] @ rest) ! k)"
    by (rule argmin_from_spec) simp_all
  then show ?thesis unfolding xs by simp
qed

lemma sequence_err_map_Inr:
  assumes "\<forall>x\<in>set xs. f x = Inr (g x)"
  shows "sequence_err (map f xs) = Inr (map g xs)"
  using assms by (induction xs) simp_all



lemma nearest_index_spec:
  assumes "t \<noteq> []"
  shows "np_argmin (map (\<lambda>x. \<bar>x - future\<bar>) t) = Inr (nearest_index t future) \<and>
         nearest_index t future < length t \<and>
         (\<forall>k<length t. \<bar>t ! nearest_index t future - future\<bar> \<le> \<bar>t ! k - future\<bar>) \<and>
         (\<forall>k<nearest_index t future. \<bar>t ! nearest_index t future - future\<bar> < \<bar>t ! k - future\<bar>)"
proof -
  from assms have "map (\<lambda>x. \<bar>x - future\<bar>) t \<noteq> []" by simp
  from np_argmin_spec[OF this] obtain j where j:
    "np_argmin (map (\<lambda>x. \<bar>x - future\<bar>) t) = Inr j" "j < length t"
    "\<forall>k<length t. map (\<lambda>x. \<bar>x - future\<bar>) t ! j \<le> map (\<lambda>x. \<bar>x - future\<bar>) t ! k"
    "\<forall>k<j. map (\<lambda>x. \<bar>x - future\<bar>) t ! j < map (\<lambda>x. \<bar>x - future\<bar>) t ! k"
    by auto
  have nj: "nearest_index t future = j" by (simp add: nearest_index_def j(1))
  show ?thesis unfolding nj using j by auto
qed







section \<open>Effect propagation\<close>

lemma series_lengths:
  "length (hr_series b e) = length (delta_hr e)"
  "length (sbp_series b e) = length (delta_sbp e)"
  "length (dbp_series b e) = length (delta_dbp e)"
  "length (contractility_series b e) = length (delta_contractility e)"
  "length (co_series b e) = length (delta_contractility e)"
  "length (ef_series b e) = length (delta_contractility e)"
  "length (hr_safe b e) = length (delta_hr e)"
  by (simp_all add: hr_series_def sbp_series_def dbp_series_def contractility_series_def
                    co_series_def ef_series_def hr_safe_def)

lemma np_broadcast_same: "length xs = length ys \<Longrightarrow> np_broadcast f xs ys = Inr (map2 f xs ys)"
  by (simp add: np_broadcast_def)

lemma np_broadcast_error: "np_broadcast f xs ys = Inl err \<Longrightarrow> err = ValueError"
  by (auto simp: np_broadcast_def split: if_splits)

lemma last_item_error: "last_item xs = Inl err \<Longrightarrow> err = IndexError"
  by (auto simp: last_item_def split: if_splits)

lemma last_item_nonempty: "xs \<noteq> [] \<Longrightarrow> last_item xs = Inr (last xs)"
  by (simp add: last_item_def)

lemma np_min_error: "np_min xs = Inl err \<Longrightarrow> err = ValueError"
  by (cases xs) auto

lemma np_min_nonempty: "xs \<noteq> [] \<Longrightarrow> \<exists>m. np_min xs = Inr m"
  by (cases xs) auto

lemma np_argmin_error: "np_argmin xs = Inl err \<Longrightarrow> err = ValueError"
  by (cases xs) auto

lemma sequence_err_error:
  "sequence_err rs = Inl err \<Longrightarrow> \<exists>r\<in>set rs. r = Inl err"
  by (induction rs) (auto split: sum.splits)

lemma daily_summary_error:
  assumes "daily_summary t hr sbp co = Inl err"
  shows "err = ValueError \<or> err = IndexError"
proof -
  from assms obtain day where
    "(let target_t = 24 * (real day + 1) in
       case np_argmin (map (\<lambda>x. \<bar>x - target_t\<bar>) t) of Inl e \<Rightarrow> Inl e
       | Inr idx \<Rightarrow> if idx < length hr \<and> idx < length sbp \<and> idx < length co
                    then Inr () else Inl IndexError) = Inl err"
    unfolding daily_summary_def Let_def by (auto dest!: sequence_err_error)
  then show ?thesis
    by (auto simp: Let_def split: sum.splits if_splits dest: np_argmin_error)
qed

lemma daily_summary_aligned:
  assumes "t \<noteq> []" "length hr = length t" "length sbp = length t" "length co = length t"
  shows "\<exists>u. daily_summary t hr sbp co = Inr u"
proof -
  let ?f = "\<lambda>day::nat. let target_t = 24 * (real day + 1) in
       case np_argmin (map (\<lambda>x. \<bar>x - target_t\<bar>) t) of Inl e \<Rightarrow> Inl e
       | Inr idx \<Rightarrow> if idx < length hr \<and> idx < length sbp \<and> idx < length co
                    then Inr () else (Inl IndexError :: py_error + unit)"
  have one: "?f day = Inr ()" for day
    using nearest_index_spec[OF assms(1), of "24 * (real day + 1)"] assms(2-4)
    by (simp add: Let_def)
  have "sequence_err (map ?f days) = Inr (map (\<lambda>_. ()) days)" for days
    by (rule sequence_err_map_Inr) (intro ballI one)
  then show ?thesis
    unfolding daily_summary_def by (simp only: Let_def) blast
qed

lemma simulate_aligned:
  assumes al: "aligned e n"
  shows "simulate_with_effects b e =
    Inr \<lparr>traj_patient_id = patient_id b,
         drug_applied = pe_drug_name e,
         traj_time_hours = pe_time_hours e,
         heart_rate = hr_series b e,
         systolic_bp = sbp_series b e,
         diastolic_bp = dbp_series b e,
         traj_cardiac_output = co_series b e,
         traj_ejection_fraction = ef_series b e,
         mean_arterial_pressure =
           map2 np_add (dbp_series b e)
             (map (\<lambda>p. np_div p (Fin 3.0)) (map2 np_sub (sbp_series b e) (dbp_series b e))),
         stroke_volume =
           map2 (\<lambda>c h. np_div (np_mul c (Fin 1000.0)) h) (co_series b e) (hr_safe b e),
         hr_percent_change =
           np_mul (np_div (np_sub (last (hr_series b e)) (Fin (hr_baseline b)))
                          (Fin (hr_baseline b))) (Fin 100.0),
         bp_percent_change =
           np_mul (np_div (np_sub (last (sbp_series b e)) (Fin (sbp_baseline b)))
                          (Fin (sbp_baseline b))) (Fin 100.0),
         adverse_events =
           (if bradycardia_risk e \<or> np_lt (projr (np_min (hr_series b e))) (Fin 60)
            then [Bradycardia_risk (projr (np_min (hr_series b e)))] else []) @
           (if hypotension_risk e \<or> np_lt (projr (np_min (sbp_series b e))) (Fin 90)
            then [Hypotension_risk (projr (np_min (sbp_series b e)))] else [])\<rparr>"
proof -
  from al have n: "0 < n" and l: "length (pe_time_hours e) = n" "length (delta_hr e) = n"
    "length (delta_sbp e) = n" "length (delta_dbp e) = n" "length (delta_contractility e) = n"
    by (simp_all add: aligned_def)
  have b1: "np_broadcast (\<lambda>c h. np_div (np_mul c (Fin 1000.0)) h) (co_series b e) (hr_safe b e)
      = Inr (map2 (\<lambda>c h. np_div (np_mul c (Fin 1000.0)) h) (co_series b e) (hr_safe b e))"
    by (rule np_broadcast_same) (simp add: series_lengths l)
  have b2: "np_broadcast np_sub (sbp_series b e) (dbp_series b e)
      = Inr (map2 np_sub (sbp_series b e) (dbp_series b e))"
    by (rule np_broadcast_same) (simp add: series_lengths l)
  have b3: "np_broadcast np_add (dbp_series b e)
        (map (\<lambda>p. np_div p (Fin 3.0)) (map2 np_sub (sbp_series b e) (dbp_series b e)))
      = Inr (map2 np_add (dbp_series b e)
        (map (\<lambda>p. np_div p (Fin 3.0)) (map2 np_sub (sbp_series b e) (dbp_series b e))))"
    by (rule np_broadcast_same) (simp add: series_lengths l)
  have ne: "hr_series b e \<noteq> []" "sbp_series b e \<noteq> []" "pe_time_hours e \<noteq> []"
    using n l series_lengths(1,2)[of b e] by auto
  from daily_summary_aligned[OF ne(3), of "hr_series b e" "sbp_series b e" "co_series b e"]
  obtain u where u: "daily_summary (pe_time_hours e) (hr_series b e) (sbp_series b e)
      (co_series b e) = Inr u"
    by (auto simp: series_lengths l)
  from np_min_nonempty[OF ne(1)] obtain mh where mh: "np_min (hr_series b e) = Inr mh" ..
  from np_min_nonempty[OF ne(2)] obtain ms where ms: "np_min (sbp_series b e) = Inr ms" ..
  show ?thesis
    unfolding simulate_with_effects_def
    by (simp only: b1 b2 b3 last_item_nonempty[OF ne(1)] last_item_nonempty[OF ne(2)]
                   mh ms u sum.case sum.sel)
qed

lemma hr_safe_nonzero: "h \<in> set (hr_safe b e) \<Longrightarrow> h \<noteq> Fin 0"
  by (auto simp: hr_safe_def split: if_splits)

lemma simulate_no_zero_division: "simulate_with_effects b e \<noteq> Inl ZeroDivisionError"
proof
  assume "simulate_with_effects b e = Inl ZeroDivisionError"
  then show False
    unfolding simulate_with_effects_def
    by (auto split: sum.splits
             dest: np_broadcast_error last_item_error np_min_error daily_summary_error)
qed

text \<open>
  Claim C8. For every effect input, Effect-Propagation never raises a division error; the
  divisor of the stroke volume is never zero, because every \<open>HR(t) \<le> 0\<close> is replaced by 1.0;
  and for effects on a shared time axis it returns a trajectory with
  \<open>stroke_volume(t) = CO(t) * 1000 / HR(t)\<close> at every timestep, the divisor being 1.0 where
  \<open>HR(t) \<le> 0\<close>.
\<close>

theorem stroke_volume_guarded:
  "simulate_with_effects b e \<noteq> Inl ZeroDivisionError \<and>
   (\<forall>h\<in>set (hr_safe b e). h \<noteq> Fin 0) \<and>
   (aligned e n \<longrightarrow>
      (\<exists>traj. simulate_with_effects b e = Inr traj \<and> length (stroke_volume traj) = n \<and>
         (\<forall>i<n. stroke_volume traj ! i =
                   np_div (np_mul (traj_cardiac_output traj ! i) (Fin 1000))
                          (if np_le (heart_rate traj ! i) (Fin 0) then Fin 1
                           else heart_rate traj ! i))))"
proof (intro conjI impI ballI)
  show "simulate_with_effects b e \<noteq> Inl ZeroDivisionError"
    by (rule simulate_no_zero_division)
next
  fix h assume "h \<in> set (hr_safe b e)"
  then show "h \<noteq> Fin 0" by (rule hr_safe_nonzero)
next
  assume al: "aligned e n"
  then have l: "length (delta_hr e) = n" "length (delta_contractility e) = n"
    by (simp_all add: aligned_def)
  have sv: "\<forall>i<n. map2 (\<lambda>c h. np_div (np_mul c (Fin 1000.0)) h) (co_series b e) (hr_safe b e) ! i =
                   np_div (np_mul (co_series b e ! i) (Fin 1000))
                          (if np_le (hr_series b e ! i) (Fin 0) then Fin 1
                           else hr_series b e ! i)"
    by (simp add: series_lengths l) (simp add: hr_safe_def series_lengths l)
  show "\<exists>traj. simulate_with_effects b e = Inr traj \<and> length (stroke_volume traj) = n \<and>
         (\<forall>i<n. stroke_volume traj ! i =
                   np_div (np_mul (traj_cardiac_output traj ! i) (Fin 1000))
                          (if np_le (heart_rate traj ! i) (Fin 0) then Fin 1
                           else heart_rate traj ! i))"
    unfolding simulate_aligned[OF al] using sv
    by (simp add: series_lengths l)
qed

lemma null_series:
  assumes "null_effects e n"
  shows "hr_series b e = replicate n (Fin (hr_baseline b))"
    "sbp_series b e = replicate n (Fin (sbp_baseline b))"
    "dbp_series b e = replicate n (Fin (dbp_baseline b))"
    "contractility_series b e = replicate n (Fin (contractility b))"
    "vr_series b e = replicate n (Fin (vascular_resistance b))"
  using assms
  by (simp_all add: null_effects_def hr_series_def sbp_series_def dbp_series_def
                    contractility_series_def vr_series_def)

lemma null_co_ef:
  assumes "null_effects e n" "contractility b \<noteq> 0"
  shows "co_series b e = replicate n (Fin (cardiac_output b))"
    "ef_series b e = replicate n (Fin (ejection_fraction b))"
  using assms(2) by (simp_all add: co_series_def ef_series_def null_series(4)[OF assms(1)])


lemma null_example: "null_effects zero_effects_example 3"
  by (simp add: null_effects_def aligned_def zero_effects_example_def numeral_3_eq_3)



theorem stroke_volume_guarded_witness:
  "aligned zero_effects_example 3 \<and>
   simulate_with_effects zero_hr_baseline zero_effects_example \<noteq> Inl ZeroDivisionError \<and>
   hr_safe zero_hr_baseline zero_effects_example = [Fin 1, Fin 1, Fin 1] \<and>
   Fin 0 \<notin> set (hr_safe zero_hr_baseline zero_effects_example) \<and>
   stroke_volume (projr (simulate_with_effects zero_hr_baseline zero_effects_example)) =
     [Fin 5000, Fin 5000, Fin 5000]"
proof -
  have al: "aligned zero_effects_example 3"
    using null_example by (simp add: null_effects_def)
  have c0: "contractility zero_hr_baseline \<noteq> 0" by (simp add: zero_hr_baseline_def)
  have hs: "hr_safe zero_hr_baseline zero_effects_example = [Fin 1, Fin 1, Fin 1]"
    by (simp add: hr_safe_def null_series[OF null_example] numeral_3_eq_3)
       (simp add: zero_hr_baseline_def)
  have co: "co_series zero_hr_baseline zero_effects_example = [Fin 5, Fin 5, Fin 5]"
    by (simp add: null_co_ef[OF null_example c0] numeral_3_eq_3) (simp add: zero_hr_baseline_def)
  from stroke_volume_guarded[of zero_hr_baseline zero_effects_example 3] al
  have nz: "simulate_with_effects zero_hr_baseline zero_effects_example \<noteq> Inl ZeroDivisionError"
    and nh: "Fin 0 \<notin> set (hr_safe zero_hr_baseline zero_effects_example)"
    by blast+
  have sv: "stroke_volume (projr (simulate_with_effects zero_hr_baseline zero_effects_example)) =
     [Fin 5000, Fin 5000, Fin 5000]"
    unfolding simulate_aligned[OF al] by (simp add: hs co)
  from al nz hs nh sv show ?thesis by (intro conjI)
qed

section \<open>Steady state of the PK engine\<close>






























section \<open>What the added hypotheses exclude\<close>

text \<open>
  The amended statements of the steady-state and null-effect claims carry hypotheses the
  original ones did not. Each is needed: a float dosing interval makes \<open>range(n_doses)\<close>
  raise \<open>TypeError\<close>, a zero volume of distribution (patient weight 0) makes the first
  \<open>C_single\<close> call raise \<open>ZeroDivisionError\<close>, a zero systolic baseline makes the pressure
  percent change \<open>nan\<close>, and a zero baseline contractility makes the cardiac output \<open>nan\<close>.
\<close>

lemma sequence_err_head_error: "f x = Inl e \<Longrightarrow> sequence_err (map f (x # xs)) = Inl e"
  by simp

lemma np_linspace_head:
  "0 < n \<Longrightarrow> np_linspace a b n = a # map (\<lambda>i. a + real i * ((b - a) / real (n - 1))) [1..<n]"
  by (simp add: np_linspace_def upt_conv_Cons del: upt_Suc)

lemma simulate_float_interval_raises:
  assumes "tau m = PyFloat x" "x \<noteq> 0"
  shows "simulate m dur = Inl TypeError"
proof -
  have fd: "floordiv_24 (tau m) = Inr (PyFloat (of_int \<lfloor>24 / x\<rfloor>))"
    using assms by simp
  have ls: "np_linspace 0 T 5000 = 0 # map (\<lambda>i. 0 + real i * ((T - 0) / real (5000 - 1))) [1..<5000]" for T
    by (rule np_linspace_head) simp
  show ?thesis
    unfolding simulate_def
    by (simp only: fd sum.case Let_def int_times.simps ls list.map sequence_err.simps
                   C_multiple_range.simps)
qed

lemma simulate_zero_volume_raises:
  assumes "tau m = PyInt k" "0 < k" "0 < n_days m" "k \<le> 24" "Vd m = 0"
  shows "simulate m dur = Inl ZeroDivisionError"
proof -
  have fd: "floordiv_24 (tau m) = Inr (PyInt (24 div k))"
    using assms by simp
  have pos: "0 < n_days m * (24 div k)"
    using assms by (simp add: pos_imp_zdiv_pos_iff)
  have ls: "np_linspace 0 T 5000 = 0 # map (\<lambda>i. 0 + real i * ((T - 0) / real (5000 - 1))) [1..<5000]" for T
    by (rule np_linspace_head) simp
  have cs: "C_single m 0 = Inl ZeroDivisionError"
    using assms by (simp add: C_single_def py_truediv_def)
  have "C_multiple m 0 (n_days m * (24 div k)) = Inl ZeroDivisionError"
    unfolding C_multiple_def
    by (subst C_multiple_loop.simps) (simp add: pos cs)
  then have c: "C_multiple_range m 0 (PyInt (n_days m * (24 div k))) = Inl ZeroDivisionError"
    by simp
  show ?thesis
    unfolding simulate_def
    by (simp only: fd sum.case Let_def int_times.simps ls list.map sequence_err.simps c)
qed

lemma zero_sbp_percent_change:
  assumes "aligned e n" "sbp_baseline b = 0" "last (delta_sbp e) = Fin 0"
  shows "bp_percent_change (projr (simulate_with_effects b e)) = NaN"
proof -
  from assms(1) have "delta_sbp e \<noteq> []" by (auto simp: aligned_def)
  then have "last (sbp_series b e) = Fin 0"
    using assms(2,3) by (simp add: sbp_series_def last_map)
  then show ?thesis
    unfolding simulate_aligned[OF assms(1)] by (simp add: assms(2) np_sub_def)
qed

lemma zero_contractility_cardiac_output:
  assumes "null_effects e n" "contractility b = 0"
  shows "traj_cardiac_output (projr (simulate_with_effects b e)) = replicate n NaN"
proof -
  from assms(1) have al: "aligned e n" by (simp add: null_effects_def)
  have "co_series b e = replicate n NaN"
    by (simp add: co_series_def null_series(4)[OF assms(1)] assms(2))
  then show ?thesis unfolding simulate_aligned[OF al] by simp
qed

end
